theory Spec2Isabelle
  imports Main "HOL-Library.Word" "HOL-Library.Sublist"
begin

section \<open>Machine integers, strings and errors\<close>

text \<open>
  Go's \<open>int32\<close> is a 32-bit word. Go's \<open>int\<close> (the type of \<open>len\<close>, of \<open>Offset\<close>,
  \<open>Limit\<close> and \<open>Total\<close>) is a 64-bit two's complement word on the 64-bit platforms the
  client is built for: \<open>+\<close> wraps around and the comparisons are the signed ones.
\<close>

type_synonym int32 = "32 word"
type_synonym goint = "64 word"

text \<open>\<open>len(xs)\<close> as a Go \<open>int\<close>.\<close>

definition len :: "'a list \<Rightarrow> goint" where
  "len xs = of_nat (length xs)"

text \<open>
  \<open>errors.NewClientError(code, message, details...)\<close>. The error codes are the ones the
  adapters name and the ones of the specification's error taxonomy. A runtime panic is not
  a returned error; it is kept as a value of its own so that a panicking path is a branch
  of the model.
\<close>

datatype ErrorCode =
    ErrorCodeContextRequired
  | ErrorCodeClientNotInitialized
  | ErrorCodeValidationFailed
  | ErrorCodeUnsupportedOperation
  | ErrorCodeResourceNotFound
  | ErrorCodeConflict
  | ErrorCodeUnauthorized
  | ErrorCodeServerInternal

datatype error =
    ClientError ErrorCode string string
  | TransportError string
  | RuntimePanic string

fun error_message :: "error \<Rightarrow> string" where
  "error_message (ClientError c m d) = m"
| "error_message (TransportError m) = m"
| "error_message (RuntimePanic m) = m"

text \<open>\<open>strings.Contains(s, sub)\<close>, as \<open>assert.Contains\<close> uses it on \<open>err.Error()\<close>.\<close>

fun Contains :: "string \<Rightarrow> string \<Rightarrow> bool" where
  "Contains [] sub = (sub = [])"
| "Contains (c # cs) sub = (prefix sub (c # cs) \<or> Contains cs sub)"

text \<open>
  \<open>strings.Split(s, ",")\<close>: the fields between the commas, in order; the result of
  splitting the empty string is the one-element list of the empty string.
\<close>

fun Split_comma :: "string \<Rightarrow> string list" where
  "Split_comma [] = [[]]"
| "Split_comma (c # cs) =
     (if c = CHR '','' then [] # Split_comma cs
      else (case Split_comma cs of
              [] \<Rightarrow> [[c]]
            | f # fs \<Rightarrow> (c # f) # fs))"

section \<open>Wire types of v0.0.43 partitions\<close>

text \<open>
  \<open>api.V0043PartitionInfo\<close> as \<open>convertAPIPartitionToCommon\<close> and its extract helpers
  read it: every pointer field is an option, \<open>None\<close> for \<open>nil\<close>.
\<close>

record PartitionInfo_Partition =
  pp_State :: "string list option"

record PartitionInfo_Nodes =
  pn_Configured :: "string option"
  pn_Total :: "int32 option"

record PartitionInfo_Number =
  num_Number :: "int32 option"

record PartitionInfo_Maximums =
  max_Nodes :: "PartitionInfo_Number option"
  max_Time :: "PartitionInfo_Number option"

record PartitionInfo_Minimums =
  min_Nodes :: "int32 option"

record PartitionInfo_Defaults =
  def_Time :: "PartitionInfo_Number option"

record PartitionInfo_Priority =
  prio_JobFactor :: "int32 option"

record PartitionInfo_Accounts =
  acc_Allowed :: "string option"
  acc_Deny :: "string option"

record PartitionInfo_Qos =
  qos_Allowed :: "string option"
  qos_Deny :: "string option"
  qos_Assigned :: "string option"

record V0043PartitionInfo =
  api_Name :: "string option"
  api_Partition :: "PartitionInfo_Partition option"
  api_Nodes :: "PartitionInfo_Nodes option"
  api_Maximums :: "PartitionInfo_Maximums option"
  api_Minimums :: "PartitionInfo_Minimums option"
  api_Defaults :: "PartitionInfo_Defaults option"
  api_Priority :: "PartitionInfo_Priority option"
  api_Accounts :: "PartitionInfo_Accounts option"
  api_Qos :: "PartitionInfo_Qos option"

text \<open>The wire record with every field absent: \<open>api.V0043PartitionInfo{}\<close>.\<close>

definition empty_V0043PartitionInfo :: V0043PartitionInfo where
  "empty_V0043PartitionInfo =
     \<lparr>api_Name = None, api_Partition = None, api_Nodes = None, api_Maximums = None,
      api_Minimums = None, api_Defaults = None, api_Priority = None, api_Accounts = None,
      api_Qos = None\<rparr>"

section \<open>Domain types\<close>

text \<open>
  \<open>types.Partition\<close> with the fields the v0.0.43 adapter assigns; \<open>types.PartitionState\<close>
  is a string type. A nil slice and an empty slice are both the empty list.
\<close>

type_synonym PartitionState = string

record Partition =
  Name :: string
  State :: PartitionState
  Nodes :: string
  TotalNodes :: int32
  MaxNodes :: int32
  MaxTime :: int32
  MinNodes :: int32
  DefaultTime :: int32
  Priority :: int32
  AllowAccounts :: "string list"
  DenyAccounts :: "string list"
  AllowQoS :: "string list"
  DenyQoS :: "string list"
  QoS :: string

text \<open>The zero value \<open>types.Partition{}\<close>.\<close>

definition zero_Partition :: Partition where
  "zero_Partition =
     \<lparr>Name = [], State = [], Nodes = [], TotalNodes = 0, MaxNodes = 0, MaxTime = 0,
      MinNodes = 0, DefaultTime = 0, Priority = 0, AllowAccounts = [], DenyAccounts = [],
      AllowQoS = [], DenyQoS = [], QoS = []\<rparr>"

section \<open>Conversion of a v0.0.43 partition\<close>

definition extractPartitionState :: "V0043PartitionInfo \<Rightarrow> PartitionState" where
  "extractPartitionState apiPartition =
     (case api_Partition apiPartition of
        None \<Rightarrow> []
      | Some p \<Rightarrow>
          (case pp_State p of
             None \<Rightarrow> []
           | Some [] \<Rightarrow> []
           | Some (s # ss) \<Rightarrow> s))"

definition extractPartitionNodes :: "V0043PartitionInfo \<Rightarrow> string \<times> int32" where
  "extractPartitionNodes apiPartition =
     (case api_Nodes apiPartition of
        None \<Rightarrow> ([], 0)
      | Some n \<Rightarrow>
          (case pn_Configured n of None \<Rightarrow> [] | Some c \<Rightarrow> c,
           case pn_Total n of None \<Rightarrow> 0 | Some t \<Rightarrow> t))"

text \<open>A nested \<open>x != nil && x.Number != nil\<close> read, zero otherwise.\<close>

definition number_or_zero :: "PartitionInfo_Number option \<Rightarrow> int32" where
  "number_or_zero x =
     (case x of
        None \<Rightarrow> 0
      | Some n \<Rightarrow> (case num_Number n of None \<Rightarrow> 0 | Some v \<Rightarrow> v))"

definition extractPartitionLimits ::
  "V0043PartitionInfo \<Rightarrow> int32 \<times> int32 \<times> int32 \<times> int32" where
  "extractPartitionLimits apiPartition =
     (let (maxNodes, maxTime) =
            (case api_Maximums apiPartition of
               None \<Rightarrow> (0, 0)
             | Some m \<Rightarrow> (number_or_zero (max_Nodes m), number_or_zero (max_Time m)));
          minNodes =
            (case api_Minimums apiPartition of
               None \<Rightarrow> 0
             | Some m \<Rightarrow> (case min_Nodes m of None \<Rightarrow> 0 | Some v \<Rightarrow> v));
          defaultTime =
            (case api_Defaults apiPartition of
               None \<Rightarrow> 0
             | Some d \<Rightarrow> number_or_zero (def_Time d))
      in (maxNodes, maxTime, minNodes, defaultTime))"

definition extractPartitionPriority :: "V0043PartitionInfo \<Rightarrow> int32" where
  "extractPartitionPriority apiPartition =
     (case api_Priority apiPartition of
        None \<Rightarrow> 0
      | Some p \<Rightarrow> (case prio_JobFactor p of None \<Rightarrow> 0 | Some v \<Rightarrow> v))"

definition extractPartitionAccounts ::
  "V0043PartitionInfo \<Rightarrow> string list \<times> string list" where
  "extractPartitionAccounts apiPartition =
     (case api_Accounts apiPartition of
        None \<Rightarrow> ([], [])
      | Some a \<Rightarrow>
          (case acc_Allowed a of None \<Rightarrow> [] | Some s \<Rightarrow> Split_comma s,
           case acc_Deny a of None \<Rightarrow> [] | Some s \<Rightarrow> Split_comma s))"

definition extractPartitionQoS ::
  "V0043PartitionInfo \<Rightarrow> string list \<times> string list \<times> string" where
  "extractPartitionQoS apiPartition =
     (case api_Qos apiPartition of
        None \<Rightarrow> ([], [], [])
      | Some q \<Rightarrow>
          (case qos_Allowed q of None \<Rightarrow> [] | Some s \<Rightarrow> Split_comma s,
           case qos_Deny q of None \<Rightarrow> [] | Some s \<Rightarrow> Split_comma s,
           case qos_Assigned q of None \<Rightarrow> [] | Some s \<Rightarrow> s))"

text \<open>
  \<open>convertAPIPartitionToCommon\<close> starts from \<open>&types.Partition{}\<close> and assigns every
  field; it has no error result.
\<close>

definition convertAPIPartitionToCommon :: "V0043PartitionInfo \<Rightarrow> Partition" where
  "convertAPIPartitionToCommon apiPartition =
     (let (nodes, totalNodes) = extractPartitionNodes apiPartition;
          (maxNodes, maxTime, minNodes, defaultTime) = extractPartitionLimits apiPartition;
          (allowAccounts, denyAccounts) = extractPartitionAccounts apiPartition;
          (allowQoS, denyQoS, assignedQoS) = extractPartitionQoS apiPartition
      in \<lparr>Name = (case api_Name apiPartition of None \<Rightarrow> [] | Some n \<Rightarrow> n),
          State = extractPartitionState apiPartition,
          Nodes = nodes, TotalNodes = totalNodes,
          MaxNodes = maxNodes, MaxTime = maxTime, MinNodes = minNodes,
          DefaultTime = defaultTime,
          Priority = extractPartitionPriority apiPartition,
          AllowAccounts = allowAccounts, DenyAccounts = denyAccounts,
          AllowQoS = allowQoS, DenyQoS = denyQoS, QoS = assignedQoS\<rparr>)"

section \<open>Wire and domain types of v0.0.44 clusters\<close>

text \<open>
  \<open>api.V0044ClusterRec\<close> as the test table of \<open>convertAPIClusterToCommon\<close> builds it:
  \<open>Name\<close> and \<open>Controller\<close> with \<open>Host\<close> and \<open>Port\<close>.
\<close>

record ClusterRec_Controller =
  ctl_Host :: "string option"
  ctl_Port :: "int32 option"

record V0044ClusterRec =
  rec_Name :: "string option"
  rec_Controller :: "ClusterRec_Controller option"

definition empty_V0044ClusterRec :: V0044ClusterRec where
  "empty_V0044ClusterRec = \<lparr>rec_Name = None, rec_Controller = None\<rparr>"

record Cluster =
  cl_Name :: string
  cl_ControllerHost :: string
  cl_ControllerPort :: int32

definition zero_Cluster :: Cluster where
  "zero_Cluster = \<lparr>cl_Name = [], cl_ControllerHost = [], cl_ControllerPort = 0\<rparr>"

text \<open>
  Modelled from the spec: the body of \<open>convertAPIClusterToCommon\<close> (v0.0.44) is missing
  from the sources; only its test table is there. The specification (data model, entity
  Cluster: name, controller host/port; component design 4.3) has every absent wire field
  convert to the zero value of the domain field, and the conversion never fail on a
  payload with no populated fields. The test calls it with an error result, which is
  kept.
\<close>

definition convertAPIClusterToCommon :: "V0044ClusterRec \<Rightarrow> error + Cluster" where
  "convertAPIClusterToCommon apiCluster =
     Inr \<lparr>cl_Name = (case rec_Name apiCluster of None \<Rightarrow> [] | Some n \<Rightarrow> n),
          cl_ControllerHost =
            (case rec_Controller apiCluster of
               None \<Rightarrow> []
             | Some c \<Rightarrow> (case ctl_Host c of None \<Rightarrow> [] | Some h \<Rightarrow> h)),
          cl_ControllerPort =
            (case rec_Controller apiCluster of
               None \<Rightarrow> 0
             | Some c \<Rightarrow> (case ctl_Port c of None \<Rightarrow> 0 | Some p \<Rightarrow> p))\<rparr>"

section \<open>Base manager and the wire client\<close>

text \<open>
  A \<open>context.Context\<close> argument is \<open>nil\<close> (\<open>None\<close>) or a context.
\<close>

datatype Context = Background

text \<open>
  A point in time (\<open>time.Time\<close>) by its calendar fields; the zero value of \<open>time.Time\<close>
  is midnight of January 1 of the year 1.
\<close>

record Time =
  t_year :: nat
  t_month :: nat
  t_day :: nat
  t_hour :: nat
  t_minute :: nat
  t_second :: nat

definition zero_Time :: Time where
  "zero_Time = \<lparr>t_year = 1, t_month = 1, t_day = 1, t_hour = 0, t_minute = 0, t_second = 0\<rparr>"

text \<open>Decimal digits of a number, and the number padded with zeros to a width.\<close>

fun digits :: "nat \<Rightarrow> string" where
  "digits n = (if n < 10 then [char_of (48 + n)] else digits (n div 10) @ [char_of (48 + n mod 10)])"

definition padded :: "nat \<Rightarrow> nat \<Rightarrow> string" where
  "padded width n = replicate (width - length (digits n)) (CHR ''0'') @ digits n"

text \<open>\<open>t.Format("2006-01-02T15:04:05")\<close>.\<close>

definition FormatTime :: "Time \<Rightarrow> string" where
  "FormatTime t =
     padded 4 (t_year t) @ ''-'' @ padded 2 (t_month t) @ ''-'' @ padded 2 (t_day t) @ ''T'' @
     padded 2 (t_hour t) @ '':'' @ padded 2 (t_minute t) @ '':'' @ padded 2 (t_second t)"

text \<open>
  The generated wire client \<open>*api.ClientWithResponses\<close>: \<open>nil\<close> (\<open>None\<close>) or a handle
  whose two partition calls answer with a transport error or a response. A response has
  its HTTP status and, when the body was a 200 document, the decoded \<open>JSON200\<close> with the
  partitions and the optional error array.
\<close>

record GetPartitionsBody =
  body_Partitions :: "V0043PartitionInfo list option"
  body_Errors :: "string list option"

record GetPartitionsResponse =
  StatusCode :: int
  JSON200 :: "GetPartitionsBody option"

record ClientWithResponses =
  SlurmV0043GetPartitionsWithResponse :: "string option \<Rightarrow> error + GetPartitionsResponse"
  SlurmV0043GetPartitionWithResponse :: "string \<Rightarrow> error + GetPartitionsResponse"

text \<open>
  Every wire call an operation issues is recorded, in order: an operation returns the
  calls it made together with its result.
\<close>

datatype wire_call =
    GetPartitions "string option"
  | GetPartition string

text \<open>
  The helpers whose bodies are not among the sources are parameters of the adapter. Of
  the common packages: \<open>HandleAPIError\<close> (wraps a transport error), \<open>HandleAPIResponse\<close>
  (status code, error array and version to an optional error) and \<open>CheckNilResponse\<close>
  (whether the value is nil, and the operation name). Of the Go standard library: the
  Unicode path of \<open>strings.EqualFold\<close> (label \<open>hasUnicode\<close>), which compares the rest of
  two strings rune by rune under Unicode simple case folding.
\<close>

record helpers =
  HandleAPIError :: "error \<Rightarrow> error"
  HandleAPIResponse :: "int \<Rightarrow> string list option \<Rightarrow> string \<Rightarrow> error option"
  CheckNilResponse :: "bool \<Rightarrow> string \<Rightarrow> error option"
  hasUnicode :: "string \<Rightarrow> string \<Rightarrow> bool"

text \<open>
  Modelled from the spec: an instance of the three helpers, whose bodies are missing from
  the sources, for evaluating the adapter on concrete calls. Component design 4.4: a
  non-2xx status gives a normalized error with the status code in its message, 404 as
  NotFound, 409 as Conflict, 401 and 403 as Unauthorized, 5xx as ServerError and any
  other status as ValidationError; a transport error is surfaced as it is; a nil
  response is a server error. The Unicode path of \<open>strings.EqualFold\<close> is instantiated
  with equality of the bytes, which simple case folding extends; the calls evaluated with
  this instance compare ASCII names only and do not reach it.
\<close>

definition status_kind :: "int \<Rightarrow> ErrorCode" where
  "status_kind status =
     (if status = 404 then ErrorCodeResourceNotFound
      else if status = 409 then ErrorCodeConflict
      else if status = 401 \<or> status = 403 then ErrorCodeUnauthorized
      else if 500 \<le> status then ErrorCodeServerInternal
      else ErrorCodeValidationFailed)"

definition spec_helpers :: helpers where
  "spec_helpers =
     \<lparr>HandleAPIError = (\<lambda>err. err),
      HandleAPIResponse =
        (\<lambda>status apiErrors version.
           if 200 \<le> status \<and> status < 300 then None
           else Some (ClientError (status_kind status)
                        (''HTTP '' @ digits (nat status)) version)),
      CheckNilResponse =
        (\<lambda>isNil operation.
           if isNil then
             Some (ClientError ErrorCodeServerInternal
                     (operation @ '' returned nil response'') [])
           else None),
      hasUnicode = (\<lambda>s t. s = t)\<rparr>"

text \<open>
  Modelled from the spec: \<open>BaseManager.ValidateContext\<close> is missing from the sources.
  Component design 4.2 (1): it fails with \<open>ContextRequired\<close> if the caller-supplied
  context is absent; the adapters' tests read the message \<open>context is required\<close>.
\<close>

definition ValidateContext :: "Context option \<Rightarrow> error option" where
  "ValidateContext ctx =
     (case ctx of
        None \<Rightarrow> Some (ClientError ErrorCodeContextRequired ''context is required'' [])
      | Some c \<Rightarrow> None)"

text \<open>
  Modelled from the spec: \<open>BaseManager.CheckClientInitialized\<close> is missing from the
  sources. Component design 4.2 (2): it fails with \<open>ClientNotInitialized\<close> if the wire
  client handle was never constructed; the tests read \<open>client not initialized\<close>.
\<close>

definition CheckClientInitialized :: "'c option \<Rightarrow> error option" where
  "CheckClientInitialized client =
     (case client of
        None \<Rightarrow> Some (ClientError ErrorCodeClientNotInitialized ''client not initialized'' [])
      | Some c \<Rightarrow> None)"

text \<open>
  Modelled from the spec: \<open>BaseManager.ValidateResourceName\<close> is missing from the
  sources. Component design 4.2 (3): it fails with a \<open>ValidationError\<close> whose message
  names the field if the required identity string is empty; the tests read
  \<open>reservation name is required\<close> for the field \<open>reservation name\<close>.
\<close>

definition ValidateResourceName :: "string \<Rightarrow> string \<Rightarrow> error option" where
  "ValidateResourceName name fieldName =
     (if name = [] then
        Some (ClientError ErrorCodeValidationFailed (fieldName @ '' is required'') [])
      else None)"

text \<open>
  Modelled from the spec: \<open>common.NewResourceNotFoundError\<close> is missing from the
  sources; error handling design 7 names the kind \<open>NotFound\<close>.
\<close>

definition NewResourceNotFoundError :: "string \<Rightarrow> string \<Rightarrow> error" where
  "NewResourceNotFoundError resourceType name =
     ClientError ErrorCodeResourceNotFound (resourceType @ '' not found'') name"

section \<open>Partition list options, filtering and pagination\<close>

record PartitionListOptions =
  Names :: "string list"
  States :: "PartitionState list"
  UpdateTime :: "Time option"
  Limit :: goint
  Offset :: goint

record PartitionList =
  Partitions :: "Partition list"
  Total :: goint

text \<open>
  \<open>strings.EqualFold\<close> as the standard library has it. The ASCII fast path walks both
  strings byte by byte: at the first position where either byte is \<open>0x80\<close> or more it
  hands the rest of both strings to the Unicode path (\<open>goto hasUnicode\<close>, a parameter
  here); otherwise the two bytes must be equal, or the smaller one must be an upper-case
  letter and the larger one that letter plus \<open>'a' - 'A'\<close>. When the shorter string is
  used up the result is whether the lengths are equal.
\<close>

definition fold_byte_eq :: "char \<Rightarrow> char \<Rightarrow> bool" where
  "fold_byte_eq sr tr =
     (tr = sr \<or>
      (let lo = min (of_char sr) (of_char tr) :: nat;
           hi = max (of_char sr) (of_char tr) :: nat
       in 65 \<le> lo \<and> lo \<le> 90 \<and> hi = lo + 32))"

fun EqualFold :: "(string \<Rightarrow> string \<Rightarrow> bool) \<Rightarrow> string \<Rightarrow> string \<Rightarrow> bool" where
  "EqualFold u [] [] = True"
| "EqualFold u (sr # s) (tr # t) =
     (if 128 \<le> (of_char sr :: nat) \<or> 128 \<le> (of_char tr :: nat) then u (sr # s) (tr # t)
      else if fold_byte_eq sr tr then EqualFold u s t
      else False)"
| "EqualFold u [] (tr # t) = False"
| "EqualFold u (sr # s) [] = False"

text \<open>A string of ASCII bytes only.\<close>

definition is_ascii :: "string \<Rightarrow> bool" where
  "is_ascii s = list_all (\<lambda>c. (of_char c :: nat) < 128) s"

text \<open>
  The comparison that ignores the case of ASCII letters, in the specification's words:
  two strings are equal once every upper-case letter is replaced by its lower-case one.
\<close>

definition ascii_lower :: "char \<Rightarrow> char" where
  "ascii_lower c =
     (if 65 \<le> (of_char c :: nat) \<and> (of_char c :: nat) \<le> 90
      then char_of (of_char c + 32 :: nat) else c)"

text \<open>
  The two search loops of \<open>matchesPartitionFilters\<close>: \<open>found\<close> becomes true at the first
  requested name that folds to the partition's name, respectively at the first requested
  state equal to the partition's state.
\<close>

fun name_found :: "(string \<Rightarrow> string \<Rightarrow> bool) \<Rightarrow> string \<Rightarrow> string list \<Rightarrow> bool" where
  "name_found u partitionName [] = False"
| "name_found u partitionName (name # names) =
     (if EqualFold u partitionName name then True else name_found u partitionName names)"

fun state_found :: "PartitionState \<Rightarrow> PartitionState list \<Rightarrow> bool" where
  "state_found partitionState [] = False"
| "state_found partitionState (state # states) =
     (if partitionState = state then True else state_found partitionState states)"

definition matchesPartitionFilters ::
  "(string \<Rightarrow> string \<Rightarrow> bool) \<Rightarrow> Partition \<Rightarrow> PartitionListOptions \<Rightarrow> bool" where
  "matchesPartitionFilters u part opts =
     (if 0 < length (Names opts) \<and> \<not> name_found u (Name part) (Names opts) then False
      else if 0 < length (States opts) \<and> \<not> state_found (State part) (States opts)
      then False
      else True)"

definition filterPartitionList ::
  "(string \<Rightarrow> string \<Rightarrow> bool) \<Rightarrow> Partition list \<Rightarrow> PartitionListOptions option
   \<Rightarrow> Partition list" where
  "filterPartitionList u partitions opts =
     (case opts of
        None \<Rightarrow> partitions
      | Some opt \<Rightarrow> filter (\<lambda>part. matchesPartitionFilters u part opt) partitions)"

text \<open>
  The slice expression \<open>xs[lo:hi]\<close>: Go panics unless \<open>0 \<le> lo \<le> hi \<le> cap(xs)\<close>. The
  bound used here is the length, which the capacity is never below.
\<close>

definition slice :: "'a list \<Rightarrow> goint \<Rightarrow> goint \<Rightarrow> error + 'a list" where
  "slice xs lo hi =
     (if 0 \<le> sint lo \<and> sint lo \<le> sint hi \<and> sint hi \<le> int (length xs) then
        Inr (take (nat (sint hi) - nat (sint lo)) (drop (nat (sint lo)) xs))
      else Inl (RuntimePanic ''slice bounds out of range''))"

text \<open>
  The pagination at the end of \<open>PartitionAdapter.List\<close>, from \<open>start := listOpts.Offset\<close>
  to the final return, on the filtered list.
\<close>

definition paginate :: "goint \<Rightarrow> goint \<Rightarrow> Partition list \<Rightarrow> error + PartitionList" where
  "paginate limit offset partitionList =
     (let start = (if offset <s 0 then 0 else offset) in
      if len partitionList \<le>s start then
        Inr \<lparr>Partitions = [], Total = len partitionList\<rparr>
      else
        let end' =
              (if 0 <s limit then
                 (let e = start + limit
                  in if len partitionList <s e then len partitionList else e)
               else len partitionList)
        in (case slice partitionList start end' of
              Inl err \<Rightarrow> Inl err
            | Inr page \<Rightarrow> Inr \<lparr>Partitions = page, Total = len partitionList\<rparr>))"

text \<open>
  The part of \<open>List\<close> after the wire call: conversion of every wire partition, client-side
  filtering when options are given, and pagination with the options' limit and offset
  (both zero without options).
\<close>

definition list_result ::
  "(string \<Rightarrow> string \<Rightarrow> bool) \<Rightarrow> PartitionListOptions option \<Rightarrow> V0043PartitionInfo list
   \<Rightarrow> error + PartitionList" where
  "list_result u opts apiPartitions =
     (let partitionList = map convertAPIPartitionToCommon apiPartitions;
          partitionList = (case opts of
                             None \<Rightarrow> partitionList
                           | Some opt \<Rightarrow> filterPartitionList u partitionList opts);
          limit = (case opts of None \<Rightarrow> 0 | Some opt \<Rightarrow> Limit opt);
          offset = (case opts of None \<Rightarrow> 0 | Some opt \<Rightarrow> Offset opt)
      in paginate limit offset partitionList)"

section \<open>The partition adapter of v0.0.43\<close>

text \<open>
  The response handling shared by \<open>List\<close> and \<open>Get\<close>: the common response error
  handling, then the two nil checks, then the dereference of \<open>resp.JSON200.Partitions\<close>
  (a nil pointer dereference where a check let a nil through).
\<close>

definition checked_partitions ::
  "helpers \<Rightarrow> string \<Rightarrow> GetPartitionsResponse \<Rightarrow> error + V0043PartitionInfo list" where
  "checked_partitions h operation resp =
     (let apiErrors = (case JSON200 resp of None \<Rightarrow> None | Some body \<Rightarrow> body_Errors body)
      in case HandleAPIResponse h (StatusCode resp) apiErrors ''v0.0.43'' of
           Some err \<Rightarrow> Inl err
         | None \<Rightarrow>
             (case CheckNilResponse h (JSON200 resp = None) operation of
                Some err \<Rightarrow> Inl err
              | None \<Rightarrow>
                  (case JSON200 resp of
                     None \<Rightarrow> Inl (RuntimePanic ''nil pointer dereference'')
                   | Some body \<Rightarrow>
                       (case CheckNilResponse h (body_Partitions body = None)
                               (operation @ '' - partitions field'') of
                          Some err \<Rightarrow> Inl err
                        | None \<Rightarrow>
                            (case body_Partitions body of
                               None \<Rightarrow> Inr []
                             | Some ps \<Rightarrow> Inr ps)))))"

text \<open>
  The parameters of the list call: \<open>UpdateTime\<close>, formatted, when the options carry one.
\<close>

definition list_params :: "PartitionListOptions option \<Rightarrow> string option" where
  "list_params opts =
     (case opts of
        None \<Rightarrow> None
      | Some opt \<Rightarrow> map_option FormatTime (UpdateTime opt))"

definition PartitionAdapter_List ::
  "helpers \<Rightarrow> Context option \<Rightarrow> ClientWithResponses option \<Rightarrow> PartitionListOptions option
   \<Rightarrow> wire_call list \<times> (error + PartitionList)" where
  "PartitionAdapter_List h ctx client opts =
     (case ValidateContext ctx of
        Some err \<Rightarrow> ([], Inl err)
      | None \<Rightarrow>
          (case CheckClientInitialized client of
             Some err \<Rightarrow> ([], Inl err)
           | None \<Rightarrow>
               (case client of
                  None \<Rightarrow> ([], Inl (RuntimePanic ''nil pointer dereference''))
                | Some c \<Rightarrow>
                    (let params = list_params opts
                     in (case SlurmV0043GetPartitionsWithResponse c params of
                           Inl err \<Rightarrow> ([GetPartitions params], Inl (HandleAPIError h err))
                         | Inr resp \<Rightarrow>
                             (case checked_partitions h ''List Partitions'' resp of
                                Inl err \<Rightarrow> ([GetPartitions params], Inl err)
                              | Inr apiPartitions \<Rightarrow>
                                  ([GetPartitions params],
                                   list_result (hasUnicode h) opts apiPartitions)))))))"

definition PartitionAdapter_Get ::
  "helpers \<Rightarrow> Context option \<Rightarrow> ClientWithResponses option \<Rightarrow> string
   \<Rightarrow> wire_call list \<times> (error + Partition)" where
  "PartitionAdapter_Get h ctx client partitionName =
     (case ValidateContext ctx of
        Some err \<Rightarrow> ([], Inl err)
      | None \<Rightarrow>
          (case ValidateResourceName partitionName ''partition name'' of
             Some err \<Rightarrow> ([], Inl err)
           | None \<Rightarrow>
               (case CheckClientInitialized client of
                  Some err \<Rightarrow> ([], Inl err)
                | None \<Rightarrow>
                    (case client of
                       None \<Rightarrow> ([], Inl (RuntimePanic ''nil pointer dereference''))
                     | Some c \<Rightarrow>
                         (case SlurmV0043GetPartitionWithResponse c partitionName of
                            Inl err \<Rightarrow> ([GetPartition partitionName], Inl (HandleAPIError h err))
                          | Inr resp \<Rightarrow>
                              (case checked_partitions h ''Get Partition'' resp of
                                 Inl err \<Rightarrow> ([GetPartition partitionName], Inl err)
                               | Inr [] \<Rightarrow>
                                   ([GetPartition partitionName],
                                    Inl (NewResourceNotFoundError ''Partition'' partitionName))
                               | Inr (p # ps) \<Rightarrow>
                                   ([GetPartition partitionName],
                                    Inr (convertAPIPartitionToCommon p))))))))"

text \<open>
  \<open>Create\<close>, \<open>Update\<close> and \<open>Delete\<close> read none of their arguments and neither the
  context nor the client.
\<close>

definition PartitionAdapter_Create ::
  "Context option \<Rightarrow> ClientWithResponses option \<Rightarrow> 'p option
   \<Rightarrow> wire_call list \<times> (error + 'r)" where
  "PartitionAdapter_Create ctx client part =
     ([], Inl (ClientError ErrorCodeUnsupportedOperation
                 ''partition creation not supported in v0.0.43''
                 ''Method not allowed (405)''))"

definition PartitionAdapter_Update ::
  "Context option \<Rightarrow> ClientWithResponses option \<Rightarrow> string \<Rightarrow> 'u option
   \<Rightarrow> wire_call list \<times> error option" where
  "PartitionAdapter_Update ctx client partitionName update =
     ([], Some (ClientError ErrorCodeUnsupportedOperation
                  ''partition updates not supported in v0.0.43''
                  ''Method not allowed (405)''))"

definition PartitionAdapter_Delete ::
  "Context option \<Rightarrow> ClientWithResponses option \<Rightarrow> string
   \<Rightarrow> wire_call list \<times> error option" where
  "PartitionAdapter_Delete ctx client partitionName =
     ([], Some (ClientError ErrorCodeUnsupportedOperation
                  ''partition deletion not supported in v0.0.43''
                  ''Method not allowed (405)''))"

section \<open>The node manager of v0.0.41\<close>

text \<open>
  \<open>NodeManagerImpl.List\<close>, \<open>Get\<close> and \<open>Update\<close> return their error at once; the wrapper
  client \<open>m.client\<close> and the arguments are not read.
\<close>

definition NodeManagerImpl_List ::
  "'c option \<Rightarrow> Context option \<Rightarrow> 'o option \<Rightarrow> wire_call list \<times> (error + 'r)" where
  "NodeManagerImpl_List client ctx opts =
     ([], Inl (ClientError ErrorCodeUnsupportedOperation
                 ''Node listing not implemented for v0.0.41''
                 ''The v0.0.41 node response uses complex inline structs that differ significantly from other API versions''))"

definition NodeManagerImpl_Get ::
  "'c option \<Rightarrow> Context option \<Rightarrow> string \<Rightarrow> wire_call list \<times> (error + 'r)" where
  "NodeManagerImpl_Get client ctx nodeName =
     ([], Inl (ClientError ErrorCodeUnsupportedOperation
                 ''Node retrieval not implemented for v0.0.41''
                 ''The v0.0.41 node response uses complex inline structs that differ significantly from other API versions''))"

definition NodeManagerImpl_Update ::
  "'c option \<Rightarrow> Context option \<Rightarrow> string \<Rightarrow> 'u option \<Rightarrow> wire_call list \<times> error option" where
  "NodeManagerImpl_Update client ctx nodeName update =
     ([], Some (ClientError ErrorCodeUnsupportedOperation
                  ''Node updates not implemented for v0.0.41''
                  ''The v0.0.41 node update requires complex inline struct mapping that differs significantly from other API versions''))"

section \<open>Association creation: the default cluster\<close>

text \<open>\<open>types.AssociationCreate\<close> with the fields the command-line checks set.\<close>

record AssociationCreate =
  AccountName :: string
  UserName :: string
  Cluster :: string
  ac_Partition :: string

text \<open>
  Modelled from the spec: the body of \<open>getDefaultClusterName\<close> is missing from the
  sources. The specification's configured default is \<open>linux\<close>, the value
  \<open>cmd/test-association-cluster-fix\<close> expects of it and writes in its place
  (\<open>association1.Cluster = "linux" // This is what getDefaultClusterName() returns\<close>).
\<close>

definition getDefaultClusterName :: string where
  "getDefaultClusterName = ''linux''"

text \<open>
  The step \<open>cmd/test-association-cluster-fix\<close> gives as what happens in the \<open>Create\<close>
  method: \<open>if association.Cluster == "" { association.Cluster = defaultCluster }\<close>.
\<close>

definition populate_default_cluster :: "string \<Rightarrow> AssociationCreate \<Rightarrow> AssociationCreate" where
  "populate_default_cluster defaultCluster association =
     (if Cluster association = [] then association\<lparr>Cluster := defaultCluster\<rparr>
      else association)"

text \<open>
  \<open>testValidation\<close> of \<open>cmd/test-association-cluster-fix/main.go\<close>: the verdict it
  prints for an association.
\<close>

definition testValidation :: "AssociationCreate \<Rightarrow> string" where
  "testValidation assoc =
     (if AccountName assoc = [] then ''FAIL - account is required''
      else if UserName assoc = [] then ''FAIL - user is required''
      else if Cluster assoc = [] then ''FAIL - cluster is required''
      else ''PASS - all required fields present'')"

section \<open>Validators of the v0.0.43 adapters and the rows of their test tables\<close>

text \<open>
  The text of \<open>err.Error()\<close> that \<open>assert.Contains\<close> searches: the message of the error.
\<close>

definition Error :: "error \<Rightarrow> string" where
  "Error err = error_message err"

text \<open>
  The body each table-driven validator test runs on a row of its table: with \<open>expectedError\<close> the
  validator's result must be an error, whose text contains \<open>errorContains\<close> when that is
  not empty; without it the result must be no error.
\<close>

definition row_passes :: "error option \<Rightarrow> bool \<Rightarrow> string \<Rightarrow> bool" where
  "row_passes err expectedError errorContains =
     (if expectedError then
        (case err of
           None \<Rightarrow> False
         | Some e \<Rightarrow> errorContains = [] \<or> Contains (Error e) errorContains)
      else err = None)"

text \<open>
  Modelled from the spec: the declaration of \<open>types.ReservationUpdate\<close> is missing from
  the sources; the fields are the attributes of the data model's Reservation, each
  present or absent.
\<close>

record ReservationUpdate =
  ru_StartTime :: "Time option"
  ru_EndTime :: "Time option"
  ru_NodeCount :: "int32 option"
  ru_Users :: "string list"
  ru_Accounts :: "string list"
  ru_Partition :: "string option"

definition empty_ReservationUpdate :: ReservationUpdate where
  "empty_ReservationUpdate =
     \<lparr>ru_StartTime = None, ru_EndTime = None, ru_NodeCount = None, ru_Users = [],
      ru_Accounts = [], ru_Partition = None\<rparr>"

text \<open>\<open>types.AssociationUpdate\<close> with the fields its test table sets.\<close>

record AssociationUpdate =
  DefaultQoS :: "string option"
  QoSList :: "string list"

definition empty_AssociationUpdate :: AssociationUpdate where
  "empty_AssociationUpdate = \<lparr>DefaultQoS = None, QoSList = []\<rparr>"

text \<open>
  \<open>types.ReservationCreate\<close> with the fields \<open>cmd/test-critical-fixes\<close> sets; the
  start time is a value, the end time a pointer.
\<close>

record ReservationCreate =
  rc_Name :: string
  rc_StartTime :: Time
  rc_EndTime :: "Time option"
  rc_NodeCount :: int32
  rc_Users :: "string list"
  rc_Accounts :: "string list"
  rc_Partition :: string

text \<open>\<open>&types.ReservationCreate{Name: name}\<close>: every other field has its zero value.\<close>

definition ReservationCreate_named :: "string \<Rightarrow> ReservationCreate" where
  "ReservationCreate_named name =
     \<lparr>rc_Name = name, rc_StartTime = zero_Time, rc_EndTime = None, rc_NodeCount = 0,
      rc_Users = [], rc_Accounts = [], rc_Partition = []\<rparr>"

text \<open>\<open>&types.AssociationCreate{AccountName: account, UserName: user}\<close>.\<close>

definition AssociationCreate_of :: "string \<Rightarrow> string \<Rightarrow> AssociationCreate" where
  "AssociationCreate_of account user =
     \<lparr>AccountName = account, UserName = user, Cluster = [], ac_Partition = []\<rparr>"

text \<open>
  \<open>TestAssociationClusterDefaultFix\<close> of \<open>cmd/test-association-cluster-fix\<close>: the
  condition under which it reports no error, for the adapter's default cluster name and
  its creation validator.
\<close>

definition TestAssociationClusterDefaultFix ::
  "string \<Rightarrow> (AssociationCreate option \<Rightarrow> error option) \<Rightarrow> bool" where
  "TestAssociationClusterDefaultFix defaultCluster v =
     (let association =
            populate_default_cluster defaultCluster
              \<lparr>AccountName = ''physics'', UserName = ''testuser'', Cluster = [],
               ac_Partition = []\<rparr>;
          association2 =
            populate_default_cluster defaultCluster
              \<lparr>AccountName = ''chemistry'', UserName = ''otheruser'',
               Cluster = ''gpu-cluster'', ac_Partition = []\<rparr>
      in defaultCluster = ''linux''
         \<and> Cluster association = ''linux''
         \<and> v (Some association) = None
         \<and> Cluster association2 = ''gpu-cluster'')"

text \<open>
  Whether a validator's result is a \<open>ValidationError\<close>, and whether it is one whose
  message cites a given text.
\<close>

definition is_ValidationError :: "error option \<Rightarrow> bool" where
  "is_ValidationError err =
     (case err of
        Some (ClientError code message details) \<Rightarrow> code = ErrorCodeValidationFailed
      | _ \<Rightarrow> False)"

definition is_ValidationError_citing :: "error option \<Rightarrow> string \<Rightarrow> bool" where
  "is_ValidationError_citing err cited =
     (case err of
        Some (ClientError code message details) \<Rightarrow>
          code = ErrorCodeValidationFailed \<and> Contains message cited
      | _ \<Rightarrow> False)"

text \<open>The number of populated fields of an update payload.\<close>

definition populated_ReservationUpdate :: "ReservationUpdate \<Rightarrow> nat" where
  "populated_ReservationUpdate u =
     (if ru_StartTime u = None then 0 else 1) + (if ru_EndTime u = None then 0 else 1)
     + (if ru_NodeCount u = None then 0 else 1) + (if ru_Users u = [] then 0 else 1)
     + (if ru_Accounts u = [] then 0 else 1) + (if ru_Partition u = None then 0 else 1)"

definition populated_AssociationUpdate :: "AssociationUpdate \<Rightarrow> nat" where
  "populated_AssociationUpdate u =
     (if DefaultQoS u = None then 0 else 1) + (if QoSList u = [] then 0 else 1)"

text \<open>
  Modelled from the spec: the bodies of \<open>validateReservationUpdate\<close> and
  \<open>validateAssociationUpdate\<close> (v0.0.43) are missing from the sources; only their test
  tables are there. Component design 4.1 and 4.2 (4) and testable properties 8: an update
  payload with zero populated fields is rejected with a \<open>ValidationError\<close> citing
  \<open>at least one field\<close>. The rejection of a nil payload and its message are those of
  the test tables.
\<close>

definition validateReservationUpdate :: "ReservationUpdate option \<Rightarrow> error option" where
  "validateReservationUpdate update =
     (case update of
        None \<Rightarrow>
          Some (ClientError ErrorCodeValidationFailed ''reservation update data is required'' [])
      | Some u \<Rightarrow>
          (if populated_ReservationUpdate u = 0 then
             Some (ClientError ErrorCodeValidationFailed
                     ''at least one field must be provided for update'' [])
           else None))"

definition validateAssociationUpdate :: "AssociationUpdate option \<Rightarrow> error option" where
  "validateAssociationUpdate update =
     (case update of
        None \<Rightarrow>
          Some (ClientError ErrorCodeValidationFailed ''association update data is required'' [])
      | Some u \<Rightarrow>
          (if populated_AssociationUpdate u = 0 then
             Some (ClientError ErrorCodeValidationFailed
                     ''at least one field must be provided for update'' [])
           else None))"

text \<open>
  Modelled from the spec: the body of \<open>validateReservationCreate\<close> (v0.0.43) is missing
  from the sources; only its test table is there. Data model 3 and component design
  4.2 (3), (4): the required name must not be empty, and a reservation creation requires
  both a start time and an end time. An absent start time is the zero \<open>time.Time\<close>, an
  absent end time the nil pointer. The rejection of a nil payload and the two messages
  about payload and name are those of the test table.
\<close>

definition validateReservationCreate :: "ReservationCreate option \<Rightarrow> error option" where
  "validateReservationCreate reservation =
     (case reservation of
        None \<Rightarrow>
          Some (ClientError ErrorCodeValidationFailed
                  ''reservation creation data is required'' [])
      | Some r \<Rightarrow>
          (if rc_Name r = [] then
             Some (ClientError ErrorCodeValidationFailed ''reservation name is required'' [])
           else if rc_StartTime r = zero_Time \<or> rc_EndTime r = None then
             Some (ClientError ErrorCodeValidationFailed
                     ''start time and end time are required'' [])
           else None))"

text \<open>
  Modelled from the spec: the body of \<open>validateAssociationCreate\<close> (v0.0.43) is missing
  from the sources; only its test table is there. Data model 3 and component design
  4.2 (4): an association creation requires account name, user name and cluster name.
  The rejection of a nil payload and the messages about payload, account and user are
  those of the test table; the order of the three checks is that of \<open>testValidation\<close>.
\<close>

definition validateAssociationCreate :: "AssociationCreate option \<Rightarrow> error option" where
  "validateAssociationCreate association =
     (case association of
        None \<Rightarrow>
          Some (ClientError ErrorCodeValidationFailed
                  ''association creation data is required'' [])
      | Some a \<Rightarrow>
          (if AccountName a = [] then
             Some (ClientError ErrorCodeValidationFailed ''account name is required'' [])
           else if UserName a = [] then
             Some (ClientError ErrorCodeValidationFailed ''user name is required'' [])
           else if Cluster a = [] then
             Some (ClientError ErrorCodeValidationFailed ''cluster name is required'' [])
           else None))"

section \<open>Example data\<close>

text \<open>A partition wire record with a name and a state only, and a client that lists two.\<close>

definition api_partition :: "string \<Rightarrow> string \<Rightarrow> V0043PartitionInfo" where
  "api_partition name state =
     empty_V0043PartitionInfo
       \<lparr>api_Name := Some name, api_Partition := Some \<lparr>pp_State = Some [state]\<rparr>\<rparr>"

definition two_partitions_response :: GetPartitionsResponse where
  "two_partitions_response =
     \<lparr>StatusCode = 200,
      JSON200 = Some \<lparr>body_Partitions = Some [api_partition ''GPU'' ''UP'',
                                               api_partition ''debug'' ''DOWN''],
                      body_Errors = None\<rparr>\<rparr>"

definition two_partitions_client :: ClientWithResponses where
  "two_partitions_client =
     \<lparr>SlurmV0043GetPartitionsWithResponse = (\<lambda>params. Inr two_partitions_response),
      SlurmV0043GetPartitionWithResponse = (\<lambda>name. Inr two_partitions_response)\<rparr>"

definition list_options :: "string list \<Rightarrow> string list \<Rightarrow> goint \<Rightarrow> goint \<Rightarrow> PartitionListOptions" where
  "list_options names states limit offset =
     \<lparr>Names = names, States = states, UpdateTime = None, Limit = limit, Offset = offset\<rparr>"

section \<open>Conversion of empty payloads\<close>

text \<open>
  C1. Converting a wire payload with every field absent succeeds and gives the zero value
  of the domain record: for partitions (v0.0.43) the name and state are empty, every
  count and limit is zero and every list is empty; for clusters (v0.0.44) the conversion
  returns no error, the name and host are empty and the port is zero.
\<close>

theorem empty_payload_converts_to_zero_value:
  "convertAPIPartitionToCommon empty_V0043PartitionInfo = zero_Partition
   \<and> convertAPIClusterToCommon empty_V0044ClusterRec = Inr zero_Cluster"
  by (simp add: convertAPIPartitionToCommon_def empty_V0043PartitionInfo_def
      zero_Partition_def extractPartitionNodes_def extractPartitionLimits_def
      extractPartitionAccounts_def extractPartitionQoS_def extractPartitionState_def
      extractPartitionPriority_def convertAPIClusterToCommon_def
      empty_V0044ClusterRec_def zero_Cluster_def)


section \<open>Go integers and lengths\<close>

lemma sint_len: "length xs < 2 ^ 63 \<Longrightarrow> sint (len xs) = int (length xs)"
  unfolding len_def
  by (simp add: signed_of_nat signed_take_bit_int_eq_self)

lemma sint_upper: "sint (w :: goint) < 2 ^ 63"
  using sint_lt [of w] by simp

lemma paginate_beyond:
  assumes "int (length partitionList) \<le> sint offset"
  shows "paginate limit offset partitionList = Inr \<lparr>Partitions = [], Total = len partitionList\<rparr>"
proof -
  have nonneg: "0 \<le> sint offset" using assms by linarith
  have "int (length partitionList) < 2 ^ 63"
    using assms sint_upper [of offset] by linarith
  then have short: "length partitionList < 2 ^ 63"
    by simp
  have "sint (len partitionList) \<le> sint offset"
    using assms short by (simp add: sint_len)
  then show ?thesis
    using nonneg by (simp add: paginate_def word_sle_eq word_sless_alt)
qed

lemma sint_start:
  "sint (if offset <s 0 then 0 else offset :: goint) = max 0 (sint offset)"
  by (simp add: word_sless_alt max_def)

lemma sint_add_in_range:
  assumes "- (2 ^ 63) \<le> sint a + sint b" and "sint (a :: goint) + sint b < 2 ^ 63"
  shows "sint (a + b) = sint a + sint b"
  using assms by (simp add: sint_word_ariths signed_take_bit_int_eq_self)

text \<open>
  Where the list is shorter than \<open>2 ^ 63\<close> and \<open>start + Limit\<close> does not overflow, the
  slice bounds are in range: the page is the filtered list from the offset on, at most
  \<open>Limit\<close> entries when the limit is positive.
\<close>

lemma paginate_without_overflow:
  assumes short: "length xs < 2 ^ 63"
      and fits: "sint limit \<le> 0 \<or> max 0 (sint offset) + sint limit < 2 ^ 63"
  shows "paginate limit offset xs =
           Inr \<lparr>Partitions =
                  (if 0 < sint limit
                   then take (nat (sint limit)) (drop (nat (sint offset)) xs)
                   else drop (nat (sint offset)) xs),
                Total = len xs\<rparr>"
proof -
  define start :: goint where "start = (if offset <s 0 then 0 else offset)"
  define stop :: goint where
    "stop = (if 0 <s limit
             then (if len xs <s start + limit then len xs else start + limit)
             else len xs)"
  have unfold: "paginate limit offset xs =
      (if len xs \<le>s start then Inr \<lparr>Partitions = [], Total = len xs\<rparr>
       else (case slice xs start stop of
               Inl err \<Rightarrow> Inl err
             | Inr page \<Rightarrow> Inr \<lparr>Partitions = page, Total = len xs\<rparr>))"
    by (simp add: paginate_def start_def stop_def Let_def)
  have s: "sint start = max 0 (sint offset)"
    unfolding start_def by (rule sint_start)
  have l: "sint (len xs) = int (length xs)"
    using short by (rule sint_len)
  have same_drop: "drop (nat (max 0 (sint offset))) xs = drop (nat (sint offset)) xs"
    by (simp add: max_def)
  show ?thesis
  proof (cases "len xs \<le>s start")
    case True
    then have "sint (len xs) \<le> sint start"
      by (simp add: word_sle_eq)
    then have "int (length xs) \<le> max 0 (sint offset)"
      unfolding s l .
    then have "length xs \<le> nat (max 0 (sint offset))"
      by linarith
    then have "drop (nat (sint offset)) xs = []"
      unfolding same_drop [symmetric] by simp
    then show ?thesis
      using True by (simp add: unfold)
  next
    case outside: False
    then have "\<not> sint (len xs) \<le> sint start"
      by (simp add: word_sle_eq)
    then have inside: "max 0 (sint offset) < int (length xs)"
      unfolding s l by linarith
    have stop_val: "sint stop =
        (if 0 < sint limit
         then min (int (length xs)) (max 0 (sint offset) + sint limit)
         else int (length xs))"
    proof (cases "0 < sint limit")
      case True
      then have "max 0 (sint offset) + sint limit < 2 ^ 63"
        using fits by linarith
      then have "sint (start + limit) = max 0 (sint offset) + sint limit"
        using True s sint_add_in_range [of start limit] by simp
      then show ?thesis
        using True l by (simp add: stop_def word_sless_alt min_def)
    next
      case False
      then show ?thesis
        using l by (simp add: stop_def word_sless_alt)
    qed
    have bounds: "0 \<le> sint start \<and> sint start \<le> sint stop \<and> sint stop \<le> int (length xs)"
      unfolding s stop_val using inside by (auto simp: min_def max_def)
    then have sl: "slice xs start stop =
        Inr (take (nat (sint stop) - nat (sint start)) (drop (nat (sint start)) xs))"
      by (simp add: slice_def)
    have page: "take (nat (sint stop) - nat (sint start)) (drop (nat (sint start)) xs) =
        (if 0 < sint limit
         then take (nat (sint limit)) (drop (nat (sint offset)) xs)
         else drop (nat (sint offset)) xs)"
    proof (cases "0 < sint limit")
      case True
      have "take (nat (min (int (length xs)) (max 0 (sint offset) + sint limit))
                 - nat (max 0 (sint offset))) (drop (nat (max 0 (sint offset))) xs)
            = take (nat (sint limit)) (drop (nat (max 0 (sint offset))) xs)"
      proof (cases "int (length xs) \<le> max 0 (sint offset) + sint limit")
        case True
        then have "length (drop (nat (max 0 (sint offset))) xs) \<le> nat (sint limit)"
          by simp
        moreover have "nat (min (int (length xs)) (max 0 (sint offset) + sint limit))
            = length xs"
          using True by (simp add: min_def)
        ultimately show ?thesis
          by simp
      next
        case False
        then have "nat (min (int (length xs)) (max 0 (sint offset) + sint limit))
            - nat (max 0 (sint offset)) = nat (sint limit)"
          using \<open>0 < sint limit\<close> by (simp add: min_def)
        then show ?thesis
          by simp
      qed
      then show ?thesis
        using True by (simp add: s stop_val same_drop)
    next
      case False
      then show ?thesis
        by (simp add: s stop_val same_drop)
    qed
    show ?thesis
      using outside by (simp add: unfold sl page)
  qed
qed

lemma paginate_page:
  assumes "int (length xs) \<le> sint offset
           \<or> (length xs < 2 ^ 63
               \<and> (sint limit \<le> 0 \<or> max 0 (sint offset) + sint limit < 2 ^ 63))"
  shows "paginate limit offset xs =
           Inr \<lparr>Partitions =
                  (if 0 < sint limit
                   then take (nat (sint limit)) (drop (nat (sint offset)) xs)
                   else drop (nat (sint offset)) xs),
                Total = len xs\<rparr>"
proof (cases "int (length xs) \<le> sint offset")
  case True
  then have "length xs \<le> nat (sint offset)"
    by linarith
  then have "drop (nat (sint offset)) xs = []"
    by simp
  then show ?thesis
    using paginate_beyond [OF True, of limit] by simp
next
  case False
  then have "length xs < 2 ^ 63"
    and "sint limit \<le> 0 \<or> max 0 (sint offset) + sint limit < 2 ^ 63"
    using assms by simp_all
  then show ?thesis
    by (rule paginate_without_overflow)
qed

section \<open>The list call: wire call, conversion, filter, pagination\<close>

lemma List_success:
  assumes "SlurmV0043GetPartitionsWithResponse c (list_params opts) = Inr resp"
      and "checked_partitions h ''List Partitions'' resp = Inr apiPartitions"
  shows "PartitionAdapter_List h (Some ctx) (Some c) opts =
           ([GetPartitions (list_params opts)],
            list_result (hasUnicode h) opts apiPartitions)"
  using assms
  by (simp add: PartitionAdapter_List_def ValidateContext_def CheckClientInitialized_def)

lemma list_result_eq:
  "list_result u opts apiPartitions =
     paginate (case opts of None \<Rightarrow> 0 | Some opt \<Rightarrow> Limit opt)
       (case opts of None \<Rightarrow> 0 | Some opt \<Rightarrow> Offset opt)
       (filterPartitionList u (map convertAPIPartitionToCommon apiPartitions) opts)"
  by (cases opts) (simp_all add: list_result_def filterPartitionList_def)

text \<open>
  C2. A list call whose wire call succeeded paginates the list that the client-side filter
  left, not the unfiltered one: the page starts at the zero-based offset of the filtered
  list and holds at most \<open>Limit\<close> entries when the limit is positive, all the rest when
  it is not (the limit is optional), and \<open>Total\<close> is the number of filtered partitions.
  Whenever the offset is at or beyond the number of filtered partitions the page is empty
  and \<open>Total\<close> is still the filtered count, whatever the limit. Offset and limit are the
  options' \<open>Offset\<close> and \<open>Limit\<close>, both zero without options. (The case left out, a
  limit so large that \<open>start + Limit\<close> overflows, is the one of C9.)
\<close>

theorem List_paginates_the_filtered_list:
  assumes wire: "SlurmV0043GetPartitionsWithResponse c (list_params opts) = Inr resp"
      and checked: "checked_partitions h ''List Partitions'' resp = Inr apiPartitions"
      and filtered:
        "filtered =
           filterPartitionList (hasUnicode h) (map convertAPIPartitionToCommon apiPartitions) opts"
      and limit: "limit = (case opts of None \<Rightarrow> 0 | Some opt \<Rightarrow> Limit opt)"
      and offset: "offset = (case opts of None \<Rightarrow> 0 | Some opt \<Rightarrow> Offset opt)"
      and fits:
        "int (length filtered) \<le> sint offset
         \<or> (length filtered < 2 ^ 63
             \<and> (sint limit \<le> 0 \<or> max 0 (sint offset) + sint limit < 2 ^ 63))"
  shows "PartitionAdapter_List h (Some ctx) (Some c) opts =
           ([GetPartitions (list_params opts)],
            Inr \<lparr>Partitions =
                   (if 0 < sint limit
                    then take (nat (sint limit)) (drop (nat (sint offset)) filtered)
                    else drop (nat (sint offset)) filtered),
                 Total = len filtered\<rparr>)
         \<and> sint (len filtered) = int (length filtered)
         \<and> (int (length filtered) \<le> sint offset \<longrightarrow>
              PartitionAdapter_List h (Some ctx) (Some c) opts =
                ([GetPartitions (list_params opts)],
                 Inr \<lparr>Partitions = [], Total = len filtered\<rparr>))"
proof -
  have "int (length filtered) < 2 ^ 63"
    using fits sint_upper [of offset] by auto
  then have "length filtered < 2 ^ 63"
    by simp
  then have total: "sint (len filtered) = int (length filtered)"
    by (rule sint_len)
  have result: "list_result (hasUnicode h) opts apiPartitions = paginate limit offset filtered"
    unfolding list_result_eq filtered limit offset ..
  have page: "PartitionAdapter_List h (Some ctx) (Some c) opts =
      ([GetPartitions (list_params opts)],
       Inr \<lparr>Partitions =
              (if 0 < sint limit
               then take (nat (sint limit)) (drop (nat (sint offset)) filtered)
               else drop (nat (sint offset)) filtered),
            Total = len filtered\<rparr>)"
    using List_success [OF wire checked] paginate_page [OF fits] result by simp
  have beyond: "PartitionAdapter_List h (Some ctx) (Some c) opts =
      ([GetPartitions (list_params opts)], Inr \<lparr>Partitions = [], Total = len filtered\<rparr>)"
    if "int (length filtered) \<le> sint offset"
    using List_success [OF wire checked] paginate_beyond [OF that, of limit] result by simp
  show ?thesis
    using page total beyond by blast
qed

lemma convert_api_partition:
  "convertAPIPartitionToCommon (api_partition name state) =
     zero_Partition\<lparr>Name := name, State := state\<rparr>"
  by (simp add: convertAPIPartitionToCommon_def api_partition_def zero_Partition_def
      empty_V0043PartitionInfo_def extractPartitionNodes_def extractPartitionLimits_def
      extractPartitionAccounts_def extractPartitionQoS_def extractPartitionState_def
      extractPartitionPriority_def)

theorem List_paginates_the_filtered_list_witness:
  "PartitionAdapter_List spec_helpers (Some Background) (Some two_partitions_client)
     (Some (list_options [] [] 1 1)) =
   ([GetPartitions None],
    Inr \<lparr>Partitions = [zero_Partition\<lparr>Name := ''debug'', State := ''DOWN''\<rparr>], Total = 2\<rparr>)
   \<and> PartitionAdapter_List spec_helpers (Some Background) (Some two_partitions_client)
     (Some (list_options [] [] 0 0)) =
   ([GetPartitions None],
    Inr \<lparr>Partitions = [zero_Partition\<lparr>Name := ''GPU'', State := ''UP''\<rparr>,
                        zero_Partition\<lparr>Name := ''debug'', State := ''DOWN''\<rparr>],
          Total = 2\<rparr>)
   \<and> PartitionAdapter_List spec_helpers (Some Background) (Some two_partitions_client)
     (Some (list_options [''gpu''] [] 0 1)) =
   ([GetPartitions None], Inr \<lparr>Partitions = [], Total = 1\<rparr>)"
proof -
  let ?ps = "[api_partition ''GPU'' ''UP'', api_partition ''debug'' ''DOWN'']"
  have wire: "SlurmV0043GetPartitionsWithResponse two_partitions_client p =
      Inr two_partitions_response" for p
    by (simp add: two_partitions_client_def)
  have checked: "checked_partitions spec_helpers ''List Partitions'' two_partitions_response =
      Inr ?ps"
    by (simp add: checked_partitions_def two_partitions_response_def spec_helpers_def)
  note page = List_paginates_the_filtered_list
    [OF wire checked refl refl refl, where ctx = Background]
  have one: "PartitionAdapter_List spec_helpers (Some Background) (Some two_partitions_client)
       (Some (list_options [] [] 1 1)) =
     ([GetPartitions None],
      Inr \<lparr>Partitions = [zero_Partition\<lparr>Name := ''debug'', State := ''DOWN''\<rparr>],
            Total = 2\<rparr>)"
    using page [of "Some (list_options [] [] 1 1)"]
    by (simp add: convert_api_partition list_options_def list_params_def filterPartitionList_def
        matchesPartitionFilters_def len_def)
  have all: "PartitionAdapter_List spec_helpers (Some Background) (Some two_partitions_client)
       (Some (list_options [] [] 0 0)) =
     ([GetPartitions None],
      Inr \<lparr>Partitions = [zero_Partition\<lparr>Name := ''GPU'', State := ''UP''\<rparr>,
                          zero_Partition\<lparr>Name := ''debug'', State := ''DOWN''\<rparr>],
            Total = 2\<rparr>)"
    using page [of "Some (list_options [] [] 0 0)"]
    by (simp add: convert_api_partition list_options_def list_params_def filterPartitionList_def
        matchesPartitionFilters_def len_def)
  have none: "PartitionAdapter_List spec_helpers (Some Background) (Some two_partitions_client)
       (Some (list_options [''gpu''] [] 0 1)) =
     ([GetPartitions None], Inr \<lparr>Partitions = [], Total = 1\<rparr>)"
    using page [of "Some (list_options [''gpu''] [] 0 1)"]
    by (simp add: convert_api_partition list_options_def list_params_def filterPartitionList_def
        matchesPartitionFilters_def fold_byte_eq_def zero_Partition_def len_def)
  show ?thesis
    using one all none by simp
qed

section \<open>Bounds of the pagination slice\<close>

text \<open>
  C9. The pagination of \<open>List\<close> does not keep \<open>0 \<le> start \<le> end \<le> length\<close> for every
  offset and limit: \<open>end = start + Limit\<close> is an addition of Go \<open>int\<close>s and wraps around.
  With two partitions listed, offset 1 and limit \<open>9223372036854775807\<close> the sum is
  negative, the cap at the length does not apply, and the slice expression panics.
\<close>

theorem pagination_limit_overflow_panics:
  "PartitionAdapter_List spec_helpers (Some Background) (Some two_partitions_client)
     (Some (list_options [] [] 0x7FFFFFFFFFFFFFFF 1)) =
   ([GetPartitions None], Inl (RuntimePanic ''slice bounds out of range''))"
  by (simp add: PartitionAdapter_List_def ValidateContext_def CheckClientInitialized_def
      two_partitions_client_def two_partitions_response_def checked_partitions_def
      spec_helpers_def list_options_def list_params_def list_result_def
      filterPartitionList_def matchesPartitionFilters_def paginate_def slice_def len_def
      word_sle_eq word_sless_alt)

section \<open>Order of the precondition checks\<close>

text \<open>
  C3 (as the code has it). In the v0.0.43 partition adapter a missing context is reported
  first, whatever the client and the name. With a context, \<open>Get\<close> validates the
  partition name next and checks the client last: an empty name gives the validation
  error \<open>partition name is required\<close> whether or not the client is initialized, and
  \<open>client not initialized\<close> is the answer only for a non-empty name. \<open>List\<close> has no name
  to validate and reports the missing client right after the context. None of these
  paths issues a wire call.
\<close>

theorem Get_checks_context_then_name_then_client:
  "PartitionAdapter_Get h None client name =
     ([], Inl (ClientError ErrorCodeContextRequired ''context is required'' []))
   \<and> PartitionAdapter_Get h (Some ctx) client [] =
     ([], Inl (ClientError ErrorCodeValidationFailed ''partition name is required'' []))
   \<and> (name \<noteq> [] \<longrightarrow>
        PartitionAdapter_Get h (Some ctx) None name =
          ([], Inl (ClientError ErrorCodeClientNotInitialized ''client not initialized'' [])))
   \<and> PartitionAdapter_List h None client opts =
     ([], Inl (ClientError ErrorCodeContextRequired ''context is required'' []))
   \<and> PartitionAdapter_List h (Some ctx) None opts =
     ([], Inl (ClientError ErrorCodeClientNotInitialized ''client not initialized'' []))"
  by (simp add: PartitionAdapter_Get_def PartitionAdapter_List_def ValidateContext_def
      ValidateResourceName_def CheckClientInitialized_def)

theorem Get_checks_context_then_name_then_client_witness:
  "PartitionAdapter_Get spec_helpers None None [] =
     ([], Inl (ClientError ErrorCodeContextRequired ''context is required'' []))
   \<and> PartitionAdapter_Get spec_helpers (Some Background) (Some two_partitions_client) [] =
     ([], Inl (ClientError ErrorCodeValidationFailed ''partition name is required'' []))
   \<and> PartitionAdapter_Get spec_helpers (Some Background) None ''debug'' =
     ([], Inl (ClientError ErrorCodeClientNotInitialized ''client not initialized'' []))
   \<and> PartitionAdapter_List spec_helpers (Some Background) None None =
     ([], Inl (ClientError ErrorCodeClientNotInitialized ''client not initialized'' []))"
  using Get_checks_context_then_name_then_client
    [where h = spec_helpers and client = "Some two_partitions_client" and name = "''debug''"
       and ctx = Background and opts = None]
    Get_checks_context_then_name_then_client
    [where h = spec_helpers and client = None and name = "[]" and ctx = Background
       and opts = None]
  by simp

text \<open>
  \<open>Get\<close> with a context, a nil client and an empty name returns the validation error
  about the name, not the client-not-initialized error.
\<close>

theorem Get_nil_client_empty_name_is_validation_error:
  "PartitionAdapter_Get spec_helpers (Some Background) None [] =
     ([], Inl (ClientError ErrorCodeValidationFailed ''partition name is required'' []))
   \<and> PartitionAdapter_Get spec_helpers (Some Background) None [] \<noteq>
     ([], Inl (ClientError ErrorCodeClientNotInitialized ''client not initialized'' []))"
  by (simp add: PartitionAdapter_Get_def ValidateContext_def ValidateResourceName_def)

section \<open>Operations a wire version does not have\<close>

text \<open>
  C6. Partition \<open>Create\<close>, \<open>Update\<close> and \<open>Delete\<close> of v0.0.43 and node \<open>List\<close>, \<open>Get\<close>
  and \<open>Update\<close> of v0.0.41 return an \<open>UnsupportedOperation\<close> error for every context,
  client and argument, the same error each time, and issue no wire call.
\<close>

theorem unsupported_operations_fail_without_wire_call:
  "PartitionAdapter_Create ctx client part =
     ([], Inl (ClientError ErrorCodeUnsupportedOperation
                 ''partition creation not supported in v0.0.43'' ''Method not allowed (405)''))
   \<and> PartitionAdapter_Update ctx client partitionName update =
     ([], Some (ClientError ErrorCodeUnsupportedOperation
                  ''partition updates not supported in v0.0.43'' ''Method not allowed (405)''))
   \<and> PartitionAdapter_Delete ctx client partitionName =
     ([], Some (ClientError ErrorCodeUnsupportedOperation
                  ''partition deletion not supported in v0.0.43'' ''Method not allowed (405)''))
   \<and> NodeManagerImpl_List wrapper ctx opts =
     ([], Inl (ClientError ErrorCodeUnsupportedOperation
                 ''Node listing not implemented for v0.0.41''
                 ''The v0.0.41 node response uses complex inline structs that differ significantly from other API versions''))
   \<and> NodeManagerImpl_Get wrapper ctx nodeName =
     ([], Inl (ClientError ErrorCodeUnsupportedOperation
                 ''Node retrieval not implemented for v0.0.41''
                 ''The v0.0.41 node response uses complex inline structs that differ significantly from other API versions''))
   \<and> NodeManagerImpl_Update wrapper ctx nodeName nodeUpdate =
     ([], Some (ClientError ErrorCodeUnsupportedOperation
                  ''Node updates not implemented for v0.0.41''
                  ''The v0.0.41 node update requires complex inline struct mapping that differs significantly from other API versions''))"
  by (simp add: PartitionAdapter_Create_def PartitionAdapter_Update_def
      PartitionAdapter_Delete_def NodeManagerImpl_List_def NodeManagerImpl_Get_def
      NodeManagerImpl_Update_def)

section \<open>Client-side filters\<close>

lemma name_found_iff:
  "name_found u n names \<longleftrightarrow> (\<exists>name \<in> set names. EqualFold u n name)"
  by (induction names) auto

lemma state_found_iff: "state_found st states \<longleftrightarrow> st \<in> set states"
  by (induction states) auto

lemma matchesPartitionFilters_iff:
  "matchesPartitionFilters u part opts \<longleftrightarrow>
     (Names opts = [] \<or> (\<exists>name \<in> set (Names opts). EqualFold u (Name part) name))
     \<and> (States opts = [] \<or> State part \<in> set (States opts))"
  by (auto simp: matchesPartitionFilters_def name_found_iff state_found_iff)

lemma of_char_bound: "(of_char c :: nat) < 256"
proof -
  have "(of_char c :: nat) mod 256 < 256"
    by simp
  then show ?thesis
    by (simp only: of_char_mod_256)
qed

lemma of_char_ascii_lower:
  "(of_char (ascii_lower c) :: nat) =
     (if 65 \<le> (of_char c :: nat) \<and> (of_char c :: nat) \<le> 90 then of_char c + 32 else of_char c)"
  by (simp add: ascii_lower_def)

lemma fold_byte_eq_lower: "fold_byte_eq sr tr \<longleftrightarrow> ascii_lower sr = ascii_lower tr"
proof -
  have "ascii_lower sr = ascii_lower tr \<longleftrightarrow>
        (of_char (ascii_lower sr) :: nat) = of_char (ascii_lower tr)"
    by simp
  also have "\<dots> \<longleftrightarrow> fold_byte_eq sr tr"
    unfolding of_char_ascii_lower fold_byte_eq_def Let_def
    using of_char_bound [of sr] of_char_bound [of tr]
    by (auto simp: min_def max_def)
  finally show ?thesis by simp
qed

text \<open>On ASCII strings \<open>EqualFold\<close> is equality of the lower-cased strings.\<close>

lemma EqualFold_ascii:
  "is_ascii s \<Longrightarrow> is_ascii t \<Longrightarrow>
   EqualFold u s t \<longleftrightarrow> map ascii_lower s = map ascii_lower t"
proof (induction u s t rule: EqualFold.induct)
  case (2 u sr s tr t)
  then have "(of_char sr :: nat) < 128" and "(of_char tr :: nat) < 128"
    and "is_ascii s" and "is_ascii t"
    by (simp_all add: is_ascii_def)
  then show ?case
    using "2.IH" by (simp add: fold_byte_eq_lower)
qed simp_all

text \<open>
  After equally long ASCII prefixes, a position with a non-ASCII byte hands the rest of
  both strings to the Unicode path.
\<close>

lemma EqualFold_ascii_prefix:
  assumes "length p = length q" and "is_ascii p" and "is_ascii q"
  shows "EqualFold u (p @ s) (q @ t) \<longleftrightarrow>
           map ascii_lower p = map ascii_lower q \<and> EqualFold u s t"
  using assms
proof (induction p q rule: list_induct2)
  case Nil
  then show ?case by simp
next
  case (Cons x xs y ys)
  then have "(of_char x :: nat) < 128" and "(of_char y :: nat) < 128"
    and "is_ascii xs" and "is_ascii ys"
    by (simp_all add: is_ascii_def)
  then show ?case
    using Cons.IH by (auto simp: fold_byte_eq_lower)
qed

text \<open>
  C10. A partition is retained by the client-side filter exactly when it is in the list,
  the \<open>Names\<close> filter is empty or some requested name is equal to its name under
  \<open>strings.EqualFold\<close>, and the \<open>States\<close> filter is empty or contains its state exactly
  (states are compared with \<open>==\<close>, so their case matters). \<open>strings.EqualFold\<close> ignores
  the case of letters: two ASCII strings are equal under it exactly when they are equal
  once upper-case letters are made lower-case, and from the first position with a
  non-ASCII byte on, after ASCII parts equal in this sense, the answer is that of the
  standard library's Unicode simple case folding on the rest of both strings.
\<close>

theorem filter_keeps_fold_equal_names_and_exact_states:
  "(part \<in> set (filterPartitionList u partitions (Some opts)) \<longleftrightarrow>
      part \<in> set partitions
      \<and> (Names opts = [] \<or> (\<exists>name \<in> set (Names opts). EqualFold u (Name part) name))
      \<and> (States opts = [] \<or> State part \<in> set (States opts)))
   \<and> (is_ascii s \<and> is_ascii t \<longrightarrow>
        (EqualFold u s t \<longleftrightarrow> map ascii_lower s = map ascii_lower t))
   \<and> (length p = length q \<and> is_ascii p \<and> is_ascii q
        \<and> (128 \<le> (of_char sr :: nat) \<or> 128 \<le> (of_char tr :: nat)) \<longrightarrow>
        (EqualFold u (p @ sr # s') (q @ tr # t') \<longleftrightarrow>
           map ascii_lower p = map ascii_lower q \<and> u (sr # s') (tr # t')))"
proof -
  have kept: "part \<in> set (filterPartitionList u partitions (Some opts)) \<longleftrightarrow>
      part \<in> set partitions
      \<and> (Names opts = [] \<or> (\<exists>name \<in> set (Names opts). EqualFold u (Name part) name))
      \<and> (States opts = [] \<or> State part \<in> set (States opts))"
    by (simp add: filterPartitionList_def matchesPartitionFilters_iff)
  have ascii: "EqualFold u s t \<longleftrightarrow> map ascii_lower s = map ascii_lower t"
    if "is_ascii s \<and> is_ascii t"
    using that by (simp add: EqualFold_ascii)
  have rest: "EqualFold u (p @ sr # s') (q @ tr # t') \<longleftrightarrow>
      map ascii_lower p = map ascii_lower q \<and> u (sr # s') (tr # t')"
    if "length p = length q \<and> is_ascii p \<and> is_ascii q
        \<and> (128 \<le> (of_char sr :: nat) \<or> 128 \<le> (of_char tr :: nat))"
  proof -
    have "EqualFold u (sr # s') (tr # t') = u (sr # s') (tr # t')"
      using that by simp
    then show ?thesis
      using that EqualFold_ascii_prefix [of p q u "sr # s'" "tr # t'"] by simp
  qed
  show ?thesis
    using kept ascii rest by blast
qed

theorem filter_keeps_fold_equal_names_and_exact_states_witness:
  "zero_Partition\<lparr>Name := ''GPU'', State := ''UP''\<rparr>
     \<in> set (filterPartitionList (\<lambda>s t. False)
              [zero_Partition\<lparr>Name := ''GPU'', State := ''UP''\<rparr>]
              (Some (list_options [''debug'', ''gpu''] [''UP''] 0 0)))
   \<and> zero_Partition\<lparr>Name := ''GPU'', State := ''UP''\<rparr>
     \<notin> set (filterPartitionList (\<lambda>s t. False)
              [zero_Partition\<lparr>Name := ''GPU'', State := ''UP''\<rparr>]
              (Some (list_options [''gpx''] [] 0 0)))
   \<and> zero_Partition\<lparr>Name := ''GPU'', State := ''UP''\<rparr>
     \<notin> set (filterPartitionList (\<lambda>s t. False)
              [zero_Partition\<lparr>Name := ''GPU'', State := ''UP''\<rparr>]
              (Some (list_options [] [''up''] 0 0)))
   \<and> EqualFold (\<lambda>s t. False) ''GPU'' ''gpu''
   \<and> \<not> EqualFold (\<lambda>s t. False) ''GPU'' ''gpx''"
proof -
  let ?gpu = "zero_Partition\<lparr>Name := ''GPU'', State := ''UP''\<rparr>"
  let ?u = "\<lambda>s t :: string. False"
  note inst = filter_keeps_fold_equal_names_and_exact_states
    [where u = ?u and part = ?gpu and partitions = "[?gpu]" and p = "[]" and q = "[]"
       and sr = "CHR 0xC3" and tr = "CHR 0xC3" and s' = "[]" and t' = "[]"]
  have lower: "map ascii_lower ''GPU'' = ''gpu''" "map ascii_lower ''gpu'' = ''gpu''"
    "map ascii_lower ''gpx'' = ''gpx''"
    by code_simp+
  have a: "EqualFold ?u ''GPU'' ''gpu''"
    using inst [where s = "''GPU''" and t = "''gpu''"] lower
    by (simp add: is_ascii_def fold_byte_eq_def)
  have b: "\<not> EqualFold ?u ''GPU'' ''gpx''"
    using inst [where s = "''GPU''" and t = "''gpx''"] lower
    by (simp add: is_ascii_def fold_byte_eq_def)
  have c: "\<not> EqualFold ?u ''GPU'' ''debug''"
    by (simp add: fold_byte_eq_def)
  show ?thesis
    using inst [where opts = "list_options [''debug'', ''gpu''] [''UP''] 0 0"]
      inst [where opts = "list_options [''gpx''] [] 0 0"]
      inst [where opts = "list_options [] [''up''] 0 0"] a b c
    by (simp add: list_options_def zero_Partition_def fold_byte_eq_def)
qed

section \<open>The default cluster of an association\<close>

text \<open>
  C5. The default-cluster step of association creation gives an association with an empty
  \<open>Cluster\<close> the configured default \<open>linux\<close> and changes nothing else; an association
  with a non-empty \<open>Cluster\<close> is left as it is, whatever the default. The step comes
  before the validation: an association with account and user passes the creation check
  after it.
\<close>

theorem default_cluster_fills_only_empty_cluster:
  "(Cluster association = [] \<longrightarrow>
      populate_default_cluster getDefaultClusterName association =
        association\<lparr>Cluster := ''linux''\<rparr>)
   \<and> (Cluster association \<noteq> [] \<longrightarrow>
      populate_default_cluster defaultCluster association = association)
   \<and> (AccountName association \<noteq> [] \<and> UserName association \<noteq> [] \<longrightarrow>
      testValidation (populate_default_cluster getDefaultClusterName association) =
        ''PASS - all required fields present'')"
  by (simp add: populate_default_cluster_def getDefaultClusterName_def testValidation_def)

theorem default_cluster_fills_only_empty_cluster_witness:
  "populate_default_cluster getDefaultClusterName
     \<lparr>AccountName = ''physics'', UserName = ''testuser'', Cluster = [], ac_Partition = []\<rparr> =
     \<lparr>AccountName = ''physics'', UserName = ''testuser'', Cluster = ''linux'',
      ac_Partition = []\<rparr>
   \<and> populate_default_cluster getDefaultClusterName
     \<lparr>AccountName = ''chemistry'', UserName = ''otheruser'', Cluster = ''gpu-cluster'',
      ac_Partition = []\<rparr> =
     \<lparr>AccountName = ''chemistry'', UserName = ''otheruser'', Cluster = ''gpu-cluster'',
      ac_Partition = []\<rparr>
   \<and> testValidation (populate_default_cluster getDefaultClusterName
        \<lparr>AccountName = ''physics'', UserName = ''testuser'', Cluster = [],
         ac_Partition = []\<rparr>) = ''PASS - all required fields present''"
  using default_cluster_fills_only_empty_cluster
    [of "\<lparr>AccountName = ''physics'', UserName = ''testuser'', Cluster = [],
          ac_Partition = []\<rparr>" getDefaultClusterName]
    default_cluster_fills_only_empty_cluster
    [of "\<lparr>AccountName = ''chemistry'', UserName = ''otheruser'', Cluster = ''gpu-cluster'',
          ac_Partition = []\<rparr>" getDefaultClusterName]
  by (simp add: testValidation_def)

section \<open>Structural validation of updates\<close>

lemma populated_ReservationUpdate_zero:
  "populated_ReservationUpdate u = 0 \<longleftrightarrow> u = empty_ReservationUpdate"
  by (cases u) (auto simp: populated_ReservationUpdate_def empty_ReservationUpdate_def)

lemma populated_AssociationUpdate_zero:
  "populated_AssociationUpdate u = 0 \<longleftrightarrow> u = empty_AssociationUpdate"
  by (cases u) (auto simp: populated_AssociationUpdate_def empty_AssociationUpdate_def)

lemma cites_at_least_one_field:
  "Contains ''at least one field must be provided for update'' ''at least one field''"
  by simp

text \<open>
  C4. An update payload with zero populated fields is rejected with a \<open>ValidationError\<close>
  whose message cites \<open>at least one field\<close>, by \<open>validateReservationUpdate\<close> and by
  \<open>validateAssociationUpdate\<close>: in particular the non-nil update with no field set is
  rejected by both. A payload with a populated field is not rejected.
\<close>

theorem update_without_fields_is_rejected:
  "(populated_ReservationUpdate ru = 0 \<longrightarrow>
      is_ValidationError_citing (validateReservationUpdate (Some ru)) ''at least one field'')
   \<and> (populated_AssociationUpdate au = 0 \<longrightarrow>
      is_ValidationError_citing (validateAssociationUpdate (Some au)) ''at least one field'')
   \<and> is_ValidationError_citing (validateReservationUpdate (Some empty_ReservationUpdate))
        ''at least one field''
   \<and> is_ValidationError_citing (validateAssociationUpdate (Some empty_AssociationUpdate))
        ''at least one field''
   \<and> (populated_ReservationUpdate ru \<noteq> 0 \<longrightarrow> validateReservationUpdate (Some ru) = None)
   \<and> (populated_AssociationUpdate au \<noteq> 0 \<longrightarrow> validateAssociationUpdate (Some au) = None)"
proof -
  have r: "is_ValidationError_citing (validateReservationUpdate (Some u)) ''at least one field''"
    if "populated_ReservationUpdate u = 0" for u
    using that cites_at_least_one_field
    by (simp add: validateReservationUpdate_def is_ValidationError_citing_def)
  have a: "is_ValidationError_citing (validateAssociationUpdate (Some u)) ''at least one field''"
    if "populated_AssociationUpdate u = 0" for u
    using that cites_at_least_one_field
    by (simp add: validateAssociationUpdate_def is_ValidationError_citing_def)
  have r0: "populated_ReservationUpdate empty_ReservationUpdate = 0"
    by (simp add: populated_ReservationUpdate_zero)
  have a0: "populated_AssociationUpdate empty_AssociationUpdate = 0"
    by (simp add: populated_AssociationUpdate_zero)
  have r1: "validateReservationUpdate (Some ru) = None" if "populated_ReservationUpdate ru \<noteq> 0"
    using that by (simp add: validateReservationUpdate_def)
  have a1: "validateAssociationUpdate (Some au) = None" if "populated_AssociationUpdate au \<noteq> 0"
    using that by (simp add: validateAssociationUpdate_def)
  show ?thesis
    using r [of ru] a [of au] r [OF r0] a [OF a0] r1 a1 by blast
qed

theorem update_without_fields_is_rejected_witness:
  "is_ValidationError_citing (validateReservationUpdate (Some empty_ReservationUpdate))
     ''at least one field''
   \<and> is_ValidationError_citing (validateAssociationUpdate (Some empty_AssociationUpdate))
     ''at least one field''
   \<and> validateReservationUpdate (Some (empty_ReservationUpdate\<lparr>ru_Accounts := [''newaccount'']\<rparr>))
       = None
   \<and> validateAssociationUpdate (Some \<lparr>DefaultQoS = Some ''normal'', QoSList = []\<rparr>) = None"
  using update_without_fields_is_rejected
    [of empty_ReservationUpdate empty_AssociationUpdate]
    update_without_fields_is_rejected
    [of "empty_ReservationUpdate\<lparr>ru_Accounts := [''newaccount'']\<rparr>"
        "\<lparr>DefaultQoS = Some ''normal'', QoSList = []\<rparr>"]
  by (simp add: populated_ReservationUpdate_def populated_AssociationUpdate_def
      empty_ReservationUpdate_def empty_AssociationUpdate_def)

section \<open>Structural validation of association creation\<close>

text \<open>
  C7. \<open>validateAssociationCreate\<close> requires all three of account name, user name and
  cluster name: it returns a \<open>ValidationError\<close> whenever any of the three is empty and
  succeeds exactly when all three are present, which is the verdict of \<open>testValidation\<close>
  of \<open>cmd/test-association-cluster-fix\<close>. After the default-cluster step the cluster is
  present, so an association validated after that step passes exactly when its account
  and user names are present.
\<close>

theorem association_create_requires_account_user_cluster:
  "(AccountName association = [] \<or> UserName association = [] \<or> Cluster association = []
      \<longrightarrow> is_ValidationError (validateAssociationCreate (Some association)))
   \<and> (validateAssociationCreate (Some association) = None \<longleftrightarrow>
        AccountName association \<noteq> [] \<and> UserName association \<noteq> []
        \<and> Cluster association \<noteq> [])
   \<and> (validateAssociationCreate (Some association) = None \<longleftrightarrow>
        testValidation association = ''PASS - all required fields present'')
   \<and> (validateAssociationCreate
         (Some (populate_default_cluster getDefaultClusterName association)) = None \<longleftrightarrow>
        AccountName association \<noteq> [] \<and> UserName association \<noteq> [])"
  by (simp add: validateAssociationCreate_def is_ValidationError_def testValidation_def
      populate_default_cluster_def getDefaultClusterName_def)

theorem association_create_requires_account_user_cluster_witness:
  "is_ValidationError (validateAssociationCreate (Some (AssociationCreate_of ''account1'' ''user1'')))
   \<and> is_ValidationError
       (validateAssociationCreate
          (Some \<lparr>AccountName = [], UserName = ''testuser'', Cluster = ''linux'',
                 ac_Partition = []\<rparr>))
   \<and> validateAssociationCreate
       (Some \<lparr>AccountName = ''chemistry'', UserName = ''otheruser'', Cluster = ''gpu-cluster'',
              ac_Partition = []\<rparr>) = None
   \<and> validateAssociationCreate
       (Some (populate_default_cluster getDefaultClusterName
                (AssociationCreate_of ''account1'' ''user1''))) = None"
  using association_create_requires_account_user_cluster
    [of "AssociationCreate_of ''account1'' ''user1''"]
    association_create_requires_account_user_cluster
    [of "\<lparr>AccountName = [], UserName = ''testuser'', Cluster = ''linux'', ac_Partition = []\<rparr>"]
    association_create_requires_account_user_cluster
    [of "\<lparr>AccountName = ''chemistry'', UserName = ''otheruser'', Cluster = ''gpu-cluster'',
          ac_Partition = []\<rparr>"]
  by (simp add: AssociationCreate_of_def)

section \<open>Structural validation of reservation creation\<close>

text \<open>
  C8. \<open>validateReservationCreate\<close> requires a start time and an end time together: it
  returns a \<open>ValidationError\<close> for every payload that lacks the start time or the end
  time, whatever its name and other fields, and succeeds exactly when the name, the start
  time and the end time are all present.
\<close>

theorem reservation_create_requires_both_times:
  "(rc_StartTime reservation = zero_Time \<or> rc_EndTime reservation = None \<longrightarrow>
      is_ValidationError (validateReservationCreate (Some reservation)))
   \<and> (validateReservationCreate (Some reservation) = None \<longleftrightarrow>
        rc_Name reservation \<noteq> [] \<and> rc_StartTime reservation \<noteq> zero_Time
        \<and> rc_EndTime reservation \<noteq> None)"
  by (simp add: validateReservationCreate_def is_ValidationError_def)

theorem reservation_create_requires_both_times_witness:
  "is_ValidationError
     (validateReservationCreate
        (Some \<lparr>rc_Name = ''test-res'', rc_StartTime = zero_Time\<lparr>t_year := 2026\<rparr>,
               rc_EndTime = None, rc_NodeCount = 1, rc_Users = [''root''],
               rc_Accounts = [''root''], rc_Partition = ''normal''\<rparr>))
   \<and> is_ValidationError
       (validateReservationCreate
          (Some \<lparr>rc_Name = ''test-res'', rc_StartTime = zero_Time,
                 rc_EndTime = Some (zero_Time\<lparr>t_year := 2026\<rparr>), rc_NodeCount = 1,
                 rc_Users = [''root''], rc_Accounts = [''root''], rc_Partition = ''normal''\<rparr>))
   \<and> validateReservationCreate
       (Some \<lparr>rc_Name = ''test-res'', rc_StartTime = zero_Time\<lparr>t_year := 2026\<rparr>,
              rc_EndTime = Some (zero_Time\<lparr>t_year := 2026, t_hour := 1\<rparr>), rc_NodeCount = 1,
              rc_Users = [''root''], rc_Accounts = [''root''], rc_Partition = ''normal''\<rparr>)
       = None"
  using reservation_create_requires_both_times
    [of "\<lparr>rc_Name = ''test-res'', rc_StartTime = zero_Time\<lparr>t_year := 2026\<rparr>,
          rc_EndTime = None, rc_NodeCount = 1, rc_Users = [''root''],
          rc_Accounts = [''root''], rc_Partition = ''normal''\<rparr>"]
    reservation_create_requires_both_times
    [of "\<lparr>rc_Name = ''test-res'', rc_StartTime = zero_Time,
          rc_EndTime = Some (zero_Time\<lparr>t_year := 2026\<rparr>), rc_NodeCount = 1,
          rc_Users = [''root''], rc_Accounts = [''root''], rc_Partition = ''normal''\<rparr>"]
    reservation_create_requires_both_times
    [of "\<lparr>rc_Name = ''test-res'', rc_StartTime = zero_Time\<lparr>t_year := 2026\<rparr>,
          rc_EndTime = Some (zero_Time\<lparr>t_year := 2026, t_hour := 1\<rparr>), rc_NodeCount = 1,
          rc_Users = [''root''], rc_Accounts = [''root''], rc_Partition = ''normal''\<rparr>"]
  by (simp add: zero_Time_def)

section \<open>The test tables of the v0.0.43 validators\<close>

text \<open>
  The rows of the test tables in the sources on which the validators above and the tables
  agree: a nil payload, an empty reservation name, an empty account name and an empty
  user name are rejected with the messages the tables expect, and the association that
  went through the default-cluster step passes \<open>TestAssociationClusterDefaultFix\<close>.
\<close>

lemma test_rows_of_rejected_payloads:
  "row_passes (validateReservationUpdate None) True ''reservation update data is required''"
  "row_passes (validateAssociationUpdate None) True ''association update data is required''"
  "row_passes (validateReservationCreate None) True ''reservation creation data is required''"
  "row_passes (validateReservationCreate (Some (ReservationCreate_named []))) True
     ''reservation name is required''"
  "row_passes (validateAssociationCreate None) True ''association creation data is required''"
  "row_passes (validateAssociationCreate (Some (AssociationCreate_of [] ''user1''))) True
     ''account name is required''"
  "row_passes (validateAssociationCreate (Some (AssociationCreate_of ''account1'' []))) True
     ''user name is required''"
  "TestAssociationClusterDefaultFix getDefaultClusterName validateAssociationCreate"
  by (simp_all add: row_passes_def Error_def validateReservationUpdate_def
      validateAssociationUpdate_def validateReservationCreate_def
      validateAssociationCreate_def ReservationCreate_named_def AssociationCreate_of_def
      TestAssociationClusterDefaultFix_def populate_default_cluster_def
      getDefaultClusterName_def)

text \<open>
  The rows on which they differ: the v0.0.43 tables expect no error for the update with
  no field set, for the reservation with a name and no times, and for the association
  with an empty cluster that did not go through the default-cluster step.
\<close>

lemma test_rows_expecting_acceptance:
  "\<not> row_passes (validateReservationUpdate (Some empty_ReservationUpdate)) False []"
  "\<not> row_passes (validateAssociationUpdate (Some empty_AssociationUpdate)) False []"
  "\<not> row_passes (validateReservationCreate (Some (ReservationCreate_named ''test-reservation'')))
       False []"
  "\<not> row_passes (validateAssociationCreate (Some (AssociationCreate_of ''account1'' ''user1'')))
       False []"
  by (simp_all add: row_passes_def validateReservationUpdate_def
      validateAssociationUpdate_def validateReservationCreate_def
      validateAssociationCreate_def ReservationCreate_named_def AssociationCreate_of_def
      populated_ReservationUpdate_zero populated_AssociationUpdate_zero)

end
